theory Spec2Isabelle
  imports Main
begin

section \<open>The file viewer's views (src/olympia/files/views.py)\<close>

text \<open>
  The module is a set of Django view functions. What they compute themselves is
  embedded here function by function; what they call in other modules (the ORM objects,
  \<open>acl\<close>, \<open>reverse\<close>, the form, the file viewer and the diff object) is taken as a
  parameter, so every theorem holds for whatever those collaborators return.
\<close>

subsection \<open>Objects the views read\<close>

text \<open>ORM objects, with the attributes the views read.\<close>

record addon =
  slug :: string
  pk :: int

record version =
  version_addon :: addon

record file_obj =
  file_id :: int
  file_version :: version
  automated_signing :: bool
  has_been_validated :: bool
  processed_validation :: string

text \<open>The request: \<open>request.method\<close>, \<open>request.path\<close>, \<open>request.POST\<close>, \<open>request.GET\<close>
  and the user the access checks look at.\<close>

record request =
  req_method :: string
  req_path :: string
  req_POST :: "(string \<times> string) list"
  req_GET :: "(string \<times> string) list"
  req_user :: string

text \<open>One entry of the ordered dict \<open>viewer.get_files()\<close> returns: \<open>obj['full']\<close> and
  \<open>obj['mimetype']\<close>. An entry is a dict with these keys, hence never empty and
  always true in a condition.\<close>

record entry =
  full :: string
  mimetype :: string

text \<open>The bound \<open>FileCompareForm\<close>: the result of \<open>is_valid()\<close> and its
  \<open>cleaned_data\<close>, where \<open>left\<close> is a required field and \<open>right\<close> an optional one.\<close>

record form =
  form_is_valid :: bool
  cleaned_left :: file_obj
  cleaned_right :: "file_obj option"

text \<open>A positional argument of \<open>reverse(name, args=[...])\<close>.\<close>

datatype 'v arg = AStr string | AInt int | AFile file_obj | AViewer 'v

text \<open>Values stored in a template context or in a JSON dict. \<open>'v\<close> is the file viewer
  object and \<open>'d\<close> the diff object.\<close>

datatype ('v, 'd) pyval =
    PNone
  | PBool bool
  | PStr string
  | PList "('v, 'd) pyval list"
  | PDict "(string \<times> ('v, 'd) pyval) list"
  | PFile file_obj
  | PVersion version
  | PAddon addon
  | PViewer 'v
  | PDiff 'd
  | PForm form
  | PFiles "(string \<times> entry) list"

type_synonym ('v, 'd) dict = "string \<rightharpoonup> ('v, 'd) pyval"

datatype ('v, 'd) response =
    Render string "('v, 'd) dict"
  | HttpResponseRedirect string
  | HttpResponseSendFile string string

datatype error = Http404 | PermissionDenied

subsection \<open>Collaborators, as parameters\<close>

text \<open>
  \<open>acl.is_reviewer(request, addon)\<close>, \<open>acl.check_addon_ownership(request, addon, **kw)\<close>
  with its keyword arguments, \<open>reverse(name, args)\<close>, \<open>ugettext\<close>,
  \<open>urlparams(url, **query)\<close> and the constructor of \<open>forms.FileCompareForm\<close>
  (data, addon, initial, request).
\<close>

record 'v site =
  is_reviewer :: "request \<Rightarrow> addon \<Rightarrow> bool"
  check_addon_ownership :: "request \<Rightarrow> addon \<Rightarrow> (string \<times> bool) list \<Rightarrow> bool"
  reverse :: "string \<Rightarrow> 'v arg list \<Rightarrow> string"
  ugettext :: "string \<Rightarrow> string"
  urlparams :: "string \<Rightarrow> (string \<times> string) list \<Rightarrow> string"
  FileCompareForm ::
    "(string \<times> string) list option \<Rightarrow> addon \<Rightarrow> (string \<times> file_obj) list \<Rightarrow> request \<Rightarrow> form"

text \<open>
  The file viewer object. \<open>select\<close> changes the viewer (it sets \<open>viewer.selected\<close>), so
  it returns the viewer as it is afterwards; the other methods are read on the viewer
  they are given. \<open>viewer_str\<close> is \<open>'%s' % viewer\<close>.
\<close>

record 'v viewer_api =
  viewer_file :: "'v \<Rightarrow> file_obj"
  viewer_addon :: "'v \<Rightarrow> addon"
  viewer_str :: "'v \<Rightarrow> string"
  is_extracted :: "'v \<Rightarrow> bool"
  select :: "'v \<Rightarrow> string option \<Rightarrow> 'v"
  get_selected_file :: "'v \<Rightarrow> string option \<Rightarrow> string option"
  get_files :: "'v \<Rightarrow> (string \<times> entry) list"
  is_directory :: "'v \<Rightarrow> bool"
  is_binary :: "'v \<Rightarrow> bool"
  read_file :: "'v \<Rightarrow> string"

text \<open>The diff object, pairing two viewers \<open>diff.left\<close> and \<open>diff.right\<close>.\<close>

record ('v, 'd) diff_api =
  diff_left :: "'d \<Rightarrow> 'v"
  diff_right :: "'d \<Rightarrow> 'v"
  diff_addon :: "'d \<Rightarrow> addon"
  diff_is_extracted :: "'d \<Rightarrow> bool"
  diff_get_files :: "'d \<Rightarrow> (string \<times> entry) list"
  diff_get_deleted_files :: "'d \<Rightarrow> (string \<times> entry) list"
  diff_select :: "'d \<Rightarrow> string option \<Rightarrow> 'd"
  diff_is_diffable :: "'d \<Rightarrow> bool"
  diff_read_file :: "'d \<Rightarrow> string \<times> string"

subsection \<open>\<open>setup_viewer\<close>\<close>

text \<open>The dict literal \<open>setup_viewer\<close> starts from (lines 32 to 39).\<close>

definition setup_viewer_initial :: "file_obj \<Rightarrow> ('v, 'd) dict" where
  "setup_viewer_initial file_obj =
     [''file'' \<mapsto> PFile file_obj,
      ''version'' \<mapsto> PVersion (file_version file_obj),
      ''addon'' \<mapsto> PAddon (version_addon (file_version file_obj)),
      ''status'' \<mapsto> PBool False,
      ''selected'' \<mapsto> PDict [],
      ''validate_url'' \<mapsto> PStr '''']"

definition setup_viewer :: "'v site \<Rightarrow> request \<Rightarrow> file_obj \<Rightarrow> ('v, 'd) dict" where
  "setup_viewer site request file_obj =
     (let addon = version_addon (file_version file_obj);
          data = setup_viewer_initial file_obj;
          is_user_a_reviewer = is_reviewer site request addon;
          data =
            (if is_user_a_reviewer \<or>
                check_addon_ownership site request addon
                  [(''dev'', True), (''ignore_disabled'', True)]
             then
               (let data = data(''validate_url'' \<mapsto>
                             PStr (reverse site ''devhub.json_file_validation''
                                     [AStr (slug addon), AInt (file_id file_obj)]));
                    data = data(''automated_signing'' \<mapsto> PBool (automated_signing file_obj))
                in if has_been_validated file_obj
                   then data(''validation_data'' \<mapsto> PStr (processed_validation file_obj))
                   else data)
             else data)
      in if is_user_a_reviewer
         then data(''file_link'' \<mapsto>
                PDict [(''text'', PStr (ugettext site ''Back to review'')),
                       (''url'', PStr (reverse site ''reviewers.review'' [AStr (slug addon)]))])
         else data(''file_link'' \<mapsto>
                PDict [(''text'', PStr (ugettext site ''Back to add-on'')),
                       (''url'', PStr (reverse site ''addons.detail'' [AInt (pk addon)]))]))"

subsection \<open>\<open>check_compare_form\<close>\<close>

text \<open>\<open>shortcuts.redirect(url)\<close> answers with an \<open>HttpResponseRedirect\<close>; a request that
  is not a POST falls off the end of the function, which returns \<open>None\<close>.\<close>

definition check_compare_form ::
  "'v site \<Rightarrow> request \<Rightarrow> form \<Rightarrow> ('v, 'd) response option" where
  "check_compare_form site request form =
     (if req_method request = ''POST'' then
        (let url =
           (if form_is_valid form then
              (let left = cleaned_left form; right = cleaned_right form
               in case right of
                    Some r \<Rightarrow> reverse site ''files.compare'' [AFile left, AFile r]
                  | None \<Rightarrow> reverse site ''files.list'' [AFile left])
            else req_path request)
         in Some (HttpResponseRedirect url))
      else None)"

subsection \<open>The cache: pending messages and tokens\<close>

text \<open>
  \<open>olympia.lib.cache\<close> is not among the sources. The store holds the pending message of
  each message key and the data saved under each token.
\<close>

record cache =
  messages :: "string \<rightharpoonup> string"
  tokens :: "string \<rightharpoonup> int \<times> string"

text \<open>Modelled from the spec: \<open>Message(key).get(delete)\<close> of \<open>olympia.lib.cache\<close>, which
  is missing from the sources. It returns the message pending under the key, \<open>None\<close>
  when there is none, and with \<open>delete=True\<close> the message is deleted on retrieval.\<close>

definition Message_get :: "cache \<Rightarrow> string \<Rightarrow> bool \<Rightarrow> string option \<times> cache" where
  "Message_get c k delete =
     (messages c k, if delete then c\<lparr>messages := (messages c)(k := None)\<rparr> else c)"

text \<open>Modelled from the spec: \<open>Token\<close> of \<open>olympia.lib.cache\<close>, which is missing from
  the sources: a credential (the token string, drawn when the object is made) whose
  \<open>save()\<close> stores its data under the token, and which is valid for some data when
  that data is what is stored under it.\<close>

record token_obj =
  token :: string
  token_data :: "int \<times> string"

definition Token_save :: "cache \<Rightarrow> token_obj \<Rightarrow> cache" where
  "Token_save c new = c\<lparr>tokens := (tokens c)(token new \<mapsto> token_data new)\<rparr>"

definition Token_valid :: "cache \<Rightarrow> string \<Rightarrow> int \<times> string \<Rightarrow> bool" where
  "Token_valid c t d = (tokens c t = Some d)"

text \<open>The truth value of \<open>m\<close> in \<open>if m:\<close>, for a message or \<open>None\<close>: \<open>None\<close> and the
  empty string are false.\<close>

fun truthy :: "string option \<Rightarrow> bool" where
  "truthy None = False"
| "truthy (Some s) = (s \<noteq> [])"

fun message_val :: "string option \<Rightarrow> ('v, 'd) pyval" where
  "message_val None = PNone"
| "message_val (Some s) = PStr s"

subsection \<open>\<open>poll\<close> and \<open>compare_poll\<close>\<close>

text \<open>Both return a dict, which the \<open>json_view\<close> decorator sends as JSON. They read
  the cache and delete from it, so they return the cache as it is afterwards.\<close>

definition poll :: "'v viewer_api \<Rightarrow> cache \<Rightarrow> 'v \<Rightarrow> ('v, 'd) dict \<times> cache" where
  "poll api c viewer =
     (let status = is_extracted api viewer;
          (m, c') = Message_get c (''file-viewer:'' @ viewer_str api viewer) True
      in ([''status'' \<mapsto> PBool status, ''msg'' \<mapsto> PList [message_val m]], c'))"

text \<open>The loop \<open>for f in (diff.left, diff.right)\<close> of \<open>compare_poll\<close>, with \<open>msgs\<close> as
  its accumulator.\<close>

fun compare_poll_loop ::
  "'v viewer_api \<Rightarrow> cache \<Rightarrow> 'v list \<Rightarrow> string list \<Rightarrow> string list \<times> cache" where
  "compare_poll_loop api c [] msgs = (msgs, c)"
| "compare_poll_loop api c (f # fs) msgs =
     (let (m, c') = Message_get c (''file-viewer:'' @ viewer_str api f) True
      in compare_poll_loop api c' fs
           (case m of
              Some s \<Rightarrow> if truthy m then msgs @ [s] else msgs
            | None \<Rightarrow> msgs))"

definition compare_poll ::
  "'v viewer_api \<Rightarrow> ('v, 'd) diff_api \<Rightarrow> cache \<Rightarrow> 'd \<Rightarrow> ('v, 'd) dict \<times> cache" where
  "compare_poll api dapi c diff =
     (let (msgs, c') = compare_poll_loop api c [diff_left dapi diff, diff_right dapi diff] []
      in ([''status'' \<mapsto> PBool (diff_is_extracted dapi diff),
           ''msg'' \<mapsto> PList (map PStr msgs)], c'))"

subsection \<open>\<open>browse\<close> and \<open>compare\<close>\<close>

text \<open>\<open>key in files\<close> for a key that may be \<open>None\<close>: the keys of \<open>files\<close> are strings.\<close>

fun key_in :: "string option \<Rightarrow> (string \<times> entry) list \<Rightarrow> bool" where
  "key_in None files = False"
| "key_in (Some k) files = (k \<in> set (map fst files))"

fun key_val :: "string option \<Rightarrow> ('v, 'd) pyval" where
  "key_val None = PNone"
| "key_val (Some k) = PStr k"

text \<open>\<open>request.POST or None\<close>: an empty \<open>QueryDict\<close> is false.\<close>

definition POST_or_None :: "request \<Rightarrow> (string \<times> string) list option" where
  "POST_or_None request = (if req_POST request = [] then None else Some (req_POST request))"

text \<open>
  \<open>raise http.Http404\<close> is the result \<open>Inl Http404\<close>. The response of
  \<open>check_compare_form\<close> is an object, hence true in \<open>if response:\<close>, and \<open>None\<close> is
  false. The context holds the viewer object itself, so the template sees it as
  \<open>select\<close> left it.
\<close>

definition browse ::
  "'v site \<Rightarrow> 'v viewer_api \<Rightarrow> request \<Rightarrow> 'v \<Rightarrow> string option \<Rightarrow> string \<Rightarrow>
     error + ('v, 'd) response" where
  "browse site api request viewer key type =
     (let form = FileCompareForm site (POST_or_None request) (viewer_addon api viewer)
                   [(''left'', viewer_file api viewer)] request
      in case check_compare_form site request form of
           Some response \<Rightarrow> Inr response
         | None \<Rightarrow>
             (let data = setup_viewer site request (viewer_file api viewer);
                  viewer = select api viewer key;
                  key = get_selected_file api viewer key;
                  files = get_files api viewer
              in if \<not> key_in key files then Inl Http404
                 else
                   (let data = data(''viewer'' \<mapsto> PViewer viewer,
                                    ''poll_url'' \<mapsto> PStr (reverse site ''files.poll''
                                       [AInt (file_id (viewer_file api viewer))]),
                                    ''form'' \<mapsto> PForm form,
                                    ''status'' \<mapsto> PBool True,
                                    ''files'' \<mapsto> PFiles files,
                                    ''key'' \<mapsto> key_val key);
                        data = (if \<not> is_directory api viewer \<and> \<not> is_binary api viewer
                                then data(''content'' \<mapsto> PStr (read_file api viewer))
                                else data);
                        tmpl = (if type = ''fragment'' then ''files/content.html''
                                else ''files/viewer.html'')
                    in Inr (Render tmpl data))))"

text \<open>
  In \<open>compare\<close> the file lists are read before \<open>diff.select(key)\<close> and the
  selected key comes from \<open>diff.left\<close>. The context holds the diff object itself, so
  the template sees it as \<open>select\<close> left it.
\<close>

definition compare ::
  "'v site \<Rightarrow> 'v viewer_api \<Rightarrow> ('v, 'd) diff_api \<Rightarrow> request \<Rightarrow> 'd \<Rightarrow> string option \<Rightarrow>
     string \<Rightarrow> error + ('v, 'd) response" where
  "compare site api dapi request diff key type =
     (let left_file = viewer_file api (diff_left dapi diff);
          right_file = viewer_file api (diff_right dapi diff);
          form = FileCompareForm site (POST_or_None request) (diff_addon dapi diff)
                   [(''left'', left_file), (''right'', right_file)] request
      in case check_compare_form site request form of
           Some response \<Rightarrow> Inr response
         | None \<Rightarrow>
             (let data = setup_viewer site request left_file;
                  poll_url = reverse site ''files.compare.poll''
                               [AInt (file_id left_file), AInt (file_id right_file)];
                  files = diff_get_files dapi diff;
                  files_deleted = diff_get_deleted_files dapi diff;
                  key = get_selected_file api (diff_left dapi diff) key
              in if \<not> key_in key files \<and> \<not> key_in key files_deleted then Inl Http404
                 else
                   (let diff = diff_select dapi diff key;
                        data = data(''diff'' \<mapsto> PDiff diff,
                                    ''poll_url'' \<mapsto> PStr poll_url,
                                    ''form'' \<mapsto> PForm form,
                                    ''status'' \<mapsto> PBool True,
                                    ''files'' \<mapsto> PFiles files,
                                    ''files_deleted'' \<mapsto> PFiles files_deleted,
                                    ''key'' \<mapsto> key_val key);
                        data = (if diff_is_diffable dapi diff
                                then (let (l, r) = diff_read_file dapi diff
                                      in data(''left'' \<mapsto> PStr l, ''right'' \<mapsto> PStr r))
                                else data);
                        tmpl = (if type = ''fragment'' then ''files/content.html''
                                else ''files/viewer.html'')
                    in Inr (Render tmpl data))))"

subsection \<open>\<open>redirect\<close> and \<open>serve\<close>\<close>

text \<open>\<open>tok\<close> is the token string \<open>Token(...)\<close> draws for the new object.\<close>

definition redirect ::
  "'v site \<Rightarrow> 'v viewer_api \<Rightarrow> cache \<Rightarrow> string \<Rightarrow> request \<Rightarrow> 'v \<Rightarrow> string \<Rightarrow>
     ('v, 'd) response \<times> cache" where
  "redirect site api c tok request viewer key =
     (let new = \<lparr>token = tok, token_data = (file_id (viewer_file api viewer), key)\<rparr>;
          c' = Token_save c new;
          url = reverse site ''files.serve'' [AViewer viewer, AStr key];
          url = urlparams site url [(''token'', token new)]
      in (HttpResponseRedirect url, c'))"

definition serve ::
  "'v viewer_api \<Rightarrow> request \<Rightarrow> 'v \<Rightarrow> string \<Rightarrow> error + ('v, 'd) response" where
  "serve api request viewer key =
     (let files = get_files api viewer; obj = map_of files key
      in case obj of
           None \<Rightarrow> Inl Http404
         | Some e \<Rightarrow> Inr (HttpResponseSendFile (full e) (mimetype e)))"

subsection \<open>Decorators\<close>

text \<open>The decorators written above each view, outermost first. A line that is
  commented out decorates nothing.\<close>

datatype cond_func = etag | last_modified

datatype decorator =
    never_cache
  | json_view
  | file_view
  | compare_file_view
  | file_view_token
  | non_atomic_requests
  | csrf_exempt
  | condition cond_func cond_func

datatype view = Poll | Browse | Compare_poll | Compare | Redirect | Serve

fun decorators :: "view \<Rightarrow> decorator list" where
  "decorators Poll = [never_cache, json_view, file_view, non_atomic_requests]"
| "decorators Browse = [csrf_exempt, file_view, non_atomic_requests]"
| "decorators Compare_poll = [never_cache, compare_file_view, json_view, non_atomic_requests]"
| "decorators Compare = [csrf_exempt, compare_file_view, non_atomic_requests]"
| "decorators Redirect = [file_view, non_atomic_requests]"
| "decorators Serve = [file_view_token, non_atomic_requests]"

text \<open>The functions a decorator evaluates before the view produces its response:
  \<open>condition(etag_func, last_modified_func)\<close> evaluates the two it is given.\<close>

fun evaluates :: "decorator \<Rightarrow> cond_func list" where
  "evaluates (condition e l) = [e, l]"
| "evaluates _ = []"

definition conditions_evaluated :: "view \<Rightarrow> cond_func list" where
  "conditions_evaluated v = concat (map evaluates (decorators v))"

text \<open>Modelled from the spec: the wrapper \<open>file_view_token\<close> of
  \<open>olympia.files.decorators\<close> puts around a view, which is missing from the sources.
  File serving is token-gated: the view runs only for a request that carries a token
  valid for this file and key, and any other request is refused. \<open>serve_view\<close> is
  \<open>serve\<close> as decorated.\<close>

definition file_view_token_wrapper ::
  "'v viewer_api \<Rightarrow> cache \<Rightarrow> ('v viewer_api \<Rightarrow> request \<Rightarrow> 'v \<Rightarrow> string \<Rightarrow> error + 'r) \<Rightarrow>
     request \<Rightarrow> 'v \<Rightarrow> string \<Rightarrow> error + 'r" where
  "file_view_token_wrapper api c func request viewer key =
     (case map_of (req_GET request) ''token'' of
        None \<Rightarrow> Inl PermissionDenied
      | Some t \<Rightarrow>
          if Token_valid c t (file_id (viewer_file api viewer), key)
          then func api request viewer key
          else Inl PermissionDenied)"

definition serve_view ::
  "'v viewer_api \<Rightarrow> cache \<Rightarrow> request \<Rightarrow> 'v \<Rightarrow> string \<Rightarrow> error + ('v, 'd) response" where
  "serve_view api c = file_view_token_wrapper api c serve"

subsection \<open>\<open>BrowseViewSet\<close>\<close>

text \<open>
  The statements of the class body, in order. A class body is executed top to bottom,
  and a later assignment to a name rebinds it, so the attribute the class ends up with is
  the value of the last assignment (the inherited value when there is none).
\<close>

datatype permission = AllowReviewer | AllowReviewerUnlisted | AllowAddonAuthor

datatype permission_class = AnyOf "permission list"

datatype class_stmt =
    Assign_permission_classes "permission_class list"
  | Assign_serializer_class
  | Def string

definition BrowseViewSet_body :: "class_stmt list" where
  "BrowseViewSet_body =
     [Assign_permission_classes [AnyOf [AllowReviewer, AllowReviewerUnlisted, AllowAddonAuthor]],
      Assign_permission_classes [],
      Assign_serializer_class,
      Def ''get_queryset'',
      Def ''get_serializer_context'']"

fun class_permission_classes ::
  "permission_class list \<Rightarrow> class_stmt list \<Rightarrow> permission_class list" where
  "class_permission_classes inherited [] = inherited"
| "class_permission_classes inherited (Assign_permission_classes ps # rest) =
     class_permission_classes ps rest"
| "class_permission_classes inherited (_ # rest) = class_permission_classes inherited rest"

text \<open>Modelled from the spec: \<open>AnyOf\<close> of \<open>olympia.api.permissions\<close>, which is missing
  from the sources: it lets a request through when at least one of its members does.
  What each member decides for a request is the parameter \<open>grants\<close>.\<close>

fun has_permission ::
  "(permission \<Rightarrow> request \<Rightarrow> bool) \<Rightarrow> permission_class \<Rightarrow> request \<Rightarrow> bool" where
  "has_permission grants (AnyOf ps) request = list_ex (\<lambda>p. grants p request) ps"

text \<open>The framework's check before a view set serves anything: every permission class
  of the view set has to let the request through, or the request is denied.\<close>

definition check_permissions ::
  "(permission \<Rightarrow> request \<Rightarrow> bool) \<Rightarrow> permission_class list \<Rightarrow> request \<Rightarrow> bool" where
  "check_permissions grants classes request =
     list_all (\<lambda>c. has_permission grants c request) classes"

text \<open>\<open>retrieve\<close> on the view set: \<open>all_files\<close> is \<open>File.objects.all()\<close>, which
  \<open>get_queryset\<close> returns unfiltered; \<open>inherited\<close> is the framework's default
  \<open>permission_classes\<close>.\<close>

definition BrowseViewSet_retrieve ::
  "(permission \<Rightarrow> request \<Rightarrow> bool) \<Rightarrow> permission_class list \<Rightarrow> 'q \<Rightarrow> request \<Rightarrow> error + 'q" where
  "BrowseViewSet_retrieve grants inherited all_files request =
     (if check_permissions grants
           (class_permission_classes inherited BrowseViewSet_body) request
      then Inr all_files
      else Inl PermissionDenied)"

subsection \<open>A small site, for concrete runs\<close>

definition sample_addon :: addon where
  "sample_addon = \<lparr>slug = ''a-slug'', pk = 7\<rparr>"

definition sample_file :: file_obj where
  "sample_file =
     \<lparr>file_id = 1, file_version = \<lparr>version_addon = sample_addon\<rparr>,
      automated_signing = True, has_been_validated = True,
      processed_validation = ''{}''\<rparr>"

definition other_file :: file_obj where
  "other_file = sample_file\<lparr>file_id := 2\<rparr>"

definition sample_site :: "string option site" where
  "sample_site =
     \<lparr>is_reviewer = (\<lambda>r a. req_user r = ''reviewer''),
      check_addon_ownership = (\<lambda>r a kw. req_user r = ''author''),
      reverse = (\<lambda>name args. ''/'' @ name),
      ugettext = (\<lambda>s. s),
      urlparams = (\<lambda>url q. url @ ''?'' @ concat (map (\<lambda>(k, v). k @ ''='' @ v) q)),
      FileCompareForm =
        (\<lambda>post a initial r.
           \<lparr>form_is_valid = (post \<noteq> None), cleaned_left = sample_file,
            cleaned_right = (if post = Some [(''right'', ''2'')] then Some other_file else None)\<rparr>)\<rparr>"

definition sample_files :: "(string \<times> entry) list" where
  "sample_files =
     [(''install.rdf'', \<lparr>full = ''/tmp/1/install.rdf'', mimetype = ''text/xml''\<rparr>),
      (''icon.png'', \<lparr>full = ''/tmp/1/icon.png'', mimetype = ''image/png''\<rparr>)]"

text \<open>The sample viewer's state is the key it has selected.\<close>

definition sample_api :: "string option viewer_api" where
  "sample_api =
     \<lparr>viewer_file = (\<lambda>v. sample_file),
      viewer_addon = (\<lambda>v. sample_addon),
      viewer_str = (\<lambda>v. ''1''),
      is_extracted = (\<lambda>v. True),
      select = (\<lambda>v k. k),
      get_selected_file = (\<lambda>v k. case k of None \<Rightarrow> Some ''install.rdf'' | Some x \<Rightarrow> Some x),
      get_files = (\<lambda>v. sample_files),
      is_directory = (\<lambda>v. False),
      is_binary = (\<lambda>v. v = Some ''icon.png''),
      read_file = (\<lambda>v. ''<RDF/>'')\<rparr>"

definition sample_dapi :: "(string option, string option) diff_api" where
  "sample_dapi =
     \<lparr>diff_left = (\<lambda>d. d),
      diff_right = (\<lambda>d. d),
      diff_addon = (\<lambda>d. sample_addon),
      diff_is_extracted = (\<lambda>d. True),
      diff_get_files = (\<lambda>d. sample_files),
      diff_get_deleted_files = (\<lambda>d. []),
      diff_select = (\<lambda>d k. k),
      diff_is_diffable = (\<lambda>d. d \<noteq> Some ''icon.png''),
      diff_read_file = (\<lambda>d. (''<RDF/>'', ''<RDF></RDF>''))\<rparr>"

definition get_request :: request where
  "get_request =
     \<lparr>req_method = ''GET'', req_path = ''/files/browse/1'', req_POST = [], req_GET = [],
      req_user = ''visitor''\<rparr>"

definition post_request :: request where
  "post_request =
     \<lparr>req_method = ''POST'', req_path = ''/files/browse/1'', req_POST = [], req_GET = [],
      req_user = ''visitor''\<rparr>"

definition empty_cache :: cache where
  "empty_cache = \<lparr>messages = Map.empty, tokens = Map.empty\<rparr>"

section \<open>Properties\<close>

subsection \<open>\<open>check_compare_form\<close>\<close>

text \<open>
  Claim C6. For a POST request whose compare form is valid, \<open>check_compare_form\<close>
  redirects to the \<open>files.compare\<close> URL for (left, right) when a right file is given and
  to the \<open>files.list\<close> URL for left otherwise; for a POST request whose form is invalid
  it redirects to the path of the request; for every request that is not a POST it
  returns \<open>None\<close>, so no redirect occurs.
\<close>

theorem check_compare_form_redirects:
  "(req_method request = ''POST'' \<and> form_is_valid form \<longrightarrow>
      (\<forall>r. cleaned_right form = Some r \<longrightarrow>
         check_compare_form site request form =
           Some (HttpResponseRedirect
                   (reverse site ''files.compare'' [AFile (cleaned_left form), AFile r]))) \<and>
      (cleaned_right form = None \<longrightarrow>
         check_compare_form site request form =
           Some (HttpResponseRedirect (reverse site ''files.list'' [AFile (cleaned_left form)])))) \<and>
   (req_method request = ''POST'' \<and> \<not> form_is_valid form \<longrightarrow>
      check_compare_form site request form = Some (HttpResponseRedirect (req_path request))) \<and>
   (req_method request \<noteq> ''POST'' \<longrightarrow> check_compare_form site request form = None)"
  by (simp add: check_compare_form_def)

theorem check_compare_form_redirects_witness:
  "check_compare_form sample_site
     (post_request\<lparr>req_POST := [(''right'', ''2'')]\<rparr>)
     (FileCompareForm sample_site (Some [(''right'', ''2'')]) sample_addon [] post_request)
     = Some (HttpResponseRedirect ''/files.compare'') \<and>
   check_compare_form sample_site
     (post_request\<lparr>req_POST := [(''left'', ''1'')]\<rparr>)
     (FileCompareForm sample_site (Some [(''left'', ''1'')]) sample_addon [] post_request)
     = Some (HttpResponseRedirect ''/files.list'') \<and>
   check_compare_form sample_site post_request
     (FileCompareForm sample_site None sample_addon [] post_request)
     = Some (HttpResponseRedirect ''/files/browse/1'') \<and>
   check_compare_form sample_site get_request
     (FileCompareForm sample_site None sample_addon [] get_request) = None"
  using
    check_compare_form_redirects [of "post_request\<lparr>req_POST := [(''right'', ''2'')]\<rparr>"
      "FileCompareForm sample_site (Some [(''right'', ''2'')]) sample_addon [] post_request"
      sample_site]
    check_compare_form_redirects [of "post_request\<lparr>req_POST := [(''left'', ''1'')]\<rparr>"
      "FileCompareForm sample_site (Some [(''left'', ''1'')]) sample_addon [] post_request"
      sample_site]
    check_compare_form_redirects [of post_request
      "FileCompareForm sample_site None sample_addon [] post_request" sample_site]
    check_compare_form_redirects [of get_request
      "FileCompareForm sample_site None sample_addon [] get_request" sample_site]
  by (simp add: sample_site_def post_request_def get_request_def)

subsection \<open>\<open>setup_viewer\<close>\<close>

lemma setup_viewer_initial_keys:
  "k \<notin> {''file'', ''version'', ''addon'', ''status'', ''selected'', ''validate_url''} \<Longrightarrow>
     setup_viewer_initial file_obj k = None"
  by (simp add: setup_viewer_initial_def)

lemma setup_viewer_frame:
  "k \<notin> {''validate_url'', ''automated_signing'', ''validation_data'', ''file_link''} \<Longrightarrow>
     setup_viewer site request file_obj k = setup_viewer_initial file_obj k"
  by (simp add: setup_viewer_def Let_def)

text \<open>
  Claim C10. \<open>setup_viewer\<close> gates the privileged data: \<open>validate_url\<close> is the
  \<open>devhub.json_file_validation\<close> URL, and \<open>automated_signing\<close> is included, exactly when
  the requester is a reviewer of the add-on or passes the ownership check (dev=True,
  ignore_disabled=True), and \<open>validate_url\<close> stays the empty string otherwise;
  \<open>validation_data\<close> is included exactly when, in addition, the file has been validated.
  \<open>file_link\<close> is the "Back to review" link to \<open>reviewers.review\<close> for a reviewer and
  the "Back to add-on" link to \<open>addons.detail\<close> for everyone else. The dict starts with
  \<open>status\<close> False, \<open>selected\<close> {} and \<open>validate_url\<close> '', and only the four keys
  above are changed from that start.
\<close>

theorem setup_viewer_gating:
  "setup_viewer site request file_obj ''validate_url'' =
     Some (PStr (if is_reviewer site request (version_addon (file_version file_obj)) \<or>
                    check_addon_ownership site request (version_addon (file_version file_obj))
                      [(''dev'', True), (''ignore_disabled'', True)]
                 then reverse site ''devhub.json_file_validation''
                        [AStr (slug (version_addon (file_version file_obj))),
                         AInt (file_id file_obj)]
                 else '''')) \<and>
   setup_viewer site request file_obj ''automated_signing'' =
     (if is_reviewer site request (version_addon (file_version file_obj)) \<or>
         check_addon_ownership site request (version_addon (file_version file_obj))
           [(''dev'', True), (''ignore_disabled'', True)]
      then Some (PBool (automated_signing file_obj)) else None) \<and>
   setup_viewer site request file_obj ''validation_data'' =
     (if (is_reviewer site request (version_addon (file_version file_obj)) \<or>
          check_addon_ownership site request (version_addon (file_version file_obj))
            [(''dev'', True), (''ignore_disabled'', True)]) \<and>
         has_been_validated file_obj
      then Some (PStr (processed_validation file_obj)) else None) \<and>
   setup_viewer site request file_obj ''file_link'' =
     Some (PDict
       (if is_reviewer site request (version_addon (file_version file_obj))
        then [(''text'', PStr (ugettext site ''Back to review'')),
              (''url'', PStr (reverse site ''reviewers.review''
                               [AStr (slug (version_addon (file_version file_obj)))]))]
        else [(''text'', PStr (ugettext site ''Back to add-on'')),
              (''url'', PStr (reverse site ''addons.detail''
                               [AInt (pk (version_addon (file_version file_obj)))]))])) \<and>
   (setup_viewer site request file_obj ''validate_url'' \<noteq> Some (PStr '''') \<longrightarrow>
      is_reviewer site request (version_addon (file_version file_obj)) \<or>
      check_addon_ownership site request (version_addon (file_version file_obj))
        [(''dev'', True), (''ignore_disabled'', True)]) \<and>
   setup_viewer_initial file_obj ''status'' = Some (PBool False) \<and>
   setup_viewer_initial file_obj ''selected'' = Some (PDict []) \<and>
   setup_viewer_initial file_obj ''validate_url'' = Some (PStr '''') \<and>
   setup_viewer site request file_obj ''status'' = Some (PBool False) \<and>
   setup_viewer site request file_obj ''selected'' = Some (PDict []) \<and>
   (\<forall>k. k \<notin> {''validate_url'', ''automated_signing'', ''validation_data'', ''file_link''} \<longrightarrow>
        setup_viewer site request file_obj k = setup_viewer_initial file_obj k)"
  by (simp add: setup_viewer_def setup_viewer_initial_def Let_def)

theorem setup_viewer_gating_witness:
  "(setup_viewer sample_site (get_request\<lparr>req_user := ''author''\<rparr>) sample_file
      :: (string option, string option) dict) ''validate_url''
     = Some (PStr ''/devhub.json_file_validation'') \<and>
   (setup_viewer sample_site get_request sample_file
      :: (string option, string option) dict) ''validate_url'' = Some (PStr '''') \<and>
   (setup_viewer sample_site get_request sample_file
      :: (string option, string option) dict) ''automated_signing'' = None \<and>
   (setup_viewer sample_site get_request sample_file
      :: (string option, string option) dict) ''file'' = Some (PFile sample_file)"
  using
    setup_viewer_gating [of sample_site "get_request\<lparr>req_user := ''author''\<rparr>" sample_file]
    setup_viewer_gating [of sample_site get_request sample_file]
  by (simp add: setup_viewer_def Let_def sample_site_def sample_file_def get_request_def
        setup_viewer_initial_def)

subsection \<open>The polling views\<close>

text \<open>
  Claim C4. \<open>poll\<close> returns a dict whose \<open>status\<close> is \<open>viewer.is_extracted()\<close> and
  \<open>compare_poll\<close> one whose \<open>status\<close> is \<open>diff.is_extracted()\<close>, for every request
  and cache; both are decorated with \<open>json_view\<close>, which sends the dict as JSON.
\<close>

theorem poll_status:
  "fst (poll api c viewer) ''status'' = Some (PBool (is_extracted api viewer)) \<and>
   fst (compare_poll api dapi c diff) ''status'' = Some (PBool (diff_is_extracted dapi diff)) \<and>
   json_view \<in> set (decorators Poll) \<and>
   json_view \<in> set (decorators Compare_poll)"
  by (simp add: poll_def compare_poll_def Message_get_def Let_def split: prod.splits)

theorem poll_status_witness:
  "fst (poll sample_api empty_cache None) ''status'' = Some (PBool True) \<and>
   fst (compare_poll sample_api sample_dapi empty_cache None) ''status'' = Some (PBool True)"
  using poll_status [of sample_api empty_cache None sample_dapi None]
  by (simp add: sample_api_def sample_dapi_def)

text \<open>The two rounds of the loop of \<open>compare_poll\<close>, written out: the right viewer
  finds a message only under a key the left one has not just emptied.\<close>

lemma compare_poll_loop_two:
  "compare_poll_loop api c [l, r] [] =
     ((case messages c (''file-viewer:'' @ viewer_str api l) of
         Some s \<Rightarrow> if s \<noteq> [] then [s] else [] | None \<Rightarrow> []) @
      (case (if viewer_str api r = viewer_str api l then None
             else messages c (''file-viewer:'' @ viewer_str api r)) of
         Some s \<Rightarrow> if s \<noteq> [] then [s] else [] | None \<Rightarrow> []),
      c\<lparr>messages := (messages c)(''file-viewer:'' @ viewer_str api l := None,
                                  ''file-viewer:'' @ viewer_str api r := None)\<rparr>)"
  by (auto simp: Message_get_def split: option.splits)

text \<open>
  Claim C9. \<open>poll\<close> returns \<open>msg\<close> as a list of exactly one element, the pending
  message of the viewer or \<open>None\<close> when there is none, and the message is deleted on
  retrieval, so a second poll finds \<open>None\<close>. \<open>compare_poll\<close> returns in \<open>msg\<close> only
  messages (never \<open>None\<close>), at most two: the pending messages of \<open>diff.left\<close> and
  \<open>diff.right\<close> that are true in \<open>if m:\<close> (not empty); the list is empty when neither
  side has a pending message, and both messages are deleted.
\<close>

theorem poll_messages:
  "fst (poll api c viewer) ''msg'' =
     Some (PList [message_val (messages c (''file-viewer:'' @ viewer_str api viewer))]) \<and>
   (messages c (''file-viewer:'' @ viewer_str api viewer) = None \<longrightarrow>
      fst (poll api c viewer) ''msg'' = Some (PList [PNone])) \<and>
   messages (snd (poll api c viewer)) (''file-viewer:'' @ viewer_str api viewer) = None \<and>
   fst (poll api (snd (poll api c viewer)) viewer) ''msg'' = Some (PList [PNone]) \<and>
   (\<exists>ms. fst (compare_poll api dapi c diff) ''msg'' = Some (PList (map PStr ms)) \<and>
         length ms \<le> 2 \<and>
         set ms = {s. s \<noteq> [] \<and>
                      (messages c (''file-viewer:'' @ viewer_str api (diff_left dapi diff)) = Some s \<or>
                       messages c (''file-viewer:'' @ viewer_str api (diff_right dapi diff)) = Some s)} \<and>
         (messages c (''file-viewer:'' @ viewer_str api (diff_left dapi diff)) = None \<and>
          messages c (''file-viewer:'' @ viewer_str api (diff_right dapi diff)) = None \<longrightarrow>
            ms = [])) \<and>
   messages (snd (compare_poll api dapi c diff))
     (''file-viewer:'' @ viewer_str api (diff_left dapi diff)) = None \<and>
   messages (snd (compare_poll api dapi c diff))
     (''file-viewer:'' @ viewer_str api (diff_right dapi diff)) = None"
proof -
  have p1: "fst (poll api c viewer) ''msg'' =
     Some (PList [message_val (messages c (''file-viewer:'' @ viewer_str api viewer))])"
    by (simp add: poll_def Message_get_def)
  have p1b: "messages c (''file-viewer:'' @ viewer_str api viewer) = None \<longrightarrow>
      fst (poll api c viewer) ''msg'' = Some (PList [PNone])"
    by (simp add: p1)
  have p2: "messages (snd (poll api c viewer)) (''file-viewer:'' @ viewer_str api viewer) = None"
    by (simp add: poll_def Message_get_def)
  have p3: "fst (poll api (snd (poll api c viewer)) viewer) ''msg'' = Some (PList [PNone])"
    by (simp add: poll_def Message_get_def)
  let ?kl = "''file-viewer:'' @ viewer_str api (diff_left dapi diff)"
  let ?kr = "''file-viewer:'' @ viewer_str api (diff_right dapi diff)"
  let ?ms = "fst (compare_poll_loop api c [diff_left dapi diff, diff_right dapi diff] [])"
  have c1: "fst (compare_poll api dapi c diff) ''msg'' = Some (PList (map PStr ?ms))"
    by (simp add: compare_poll_def split: prod.splits)
  have c2: "length ?ms \<le> 2"
    unfolding compare_poll_loop_two by (simp split: option.splits)
  have c3: "set ?ms = {s. s \<noteq> [] \<and> (messages c ?kl = Some s \<or> messages c ?kr = Some s)}"
    unfolding compare_poll_loop_two by (auto split: option.splits if_splits)
  have c4: "messages c ?kl = None \<and> messages c ?kr = None \<longrightarrow> ?ms = []"
    unfolding compare_poll_loop_two by simp
  have c5: "messages (snd (compare_poll api dapi c diff)) ?kl = None"
    "messages (snd (compare_poll api dapi c diff)) ?kr = None"
    unfolding compare_poll_def compare_poll_loop_two by simp_all
  from c1 c2 c3 c4 have cx:
    "\<exists>ms. fst (compare_poll api dapi c diff) ''msg'' = Some (PList (map PStr ms)) \<and>
          length ms \<le> 2 \<and>
          set ms = {s. s \<noteq> [] \<and> (messages c ?kl = Some s \<or> messages c ?kr = Some s)} \<and>
          (messages c ?kl = None \<and> messages c ?kr = None \<longrightarrow> ms = [])"
    by blast
  from p1 p1b p2 p3 cx c5 show ?thesis by blast
qed

theorem poll_messages_witness:
  "fst (poll sample_api (empty_cache\<lparr>messages := [''file-viewer:1'' \<mapsto> ''boom'']\<rparr>) None) ''msg''
     = Some (PList [PStr ''boom'']) \<and>
   fst (poll sample_api
          (snd (poll sample_api (empty_cache\<lparr>messages := [''file-viewer:1'' \<mapsto> ''boom'']\<rparr>) None))
          None) ''msg''
     = Some (PList [PNone]) \<and>
   fst (poll sample_api empty_cache None) ''msg'' = Some (PList [PNone]) \<and>
   fst (compare_poll sample_api sample_dapi empty_cache None) ''msg'' = Some (PList []) \<and>
   fst (compare_poll sample_api sample_dapi
          (empty_cache\<lparr>messages := [''file-viewer:1'' \<mapsto> ''boom'']\<rparr>) None) ''msg''
     = Some (PList [PStr ''boom''])"
  using
    poll_messages [of sample_api "empty_cache\<lparr>messages := [''file-viewer:1'' \<mapsto> ''boom'']\<rparr>"
      None sample_dapi None]
    poll_messages [of sample_api empty_cache None sample_dapi None]
  by (simp add: poll_def compare_poll_def Message_get_def sample_api_def sample_dapi_def
        empty_cache_def)

subsection \<open>\<open>browse\<close>, \<open>compare\<close> and \<open>serve\<close>\<close>

lemma check_compare_form_POST:
  "req_method request = ''POST'' \<Longrightarrow>
     \<exists>url. check_compare_form site request form = Some (HttpResponseRedirect url)"
  by (simp add: check_compare_form_def)

lemma check_compare_form_not_POST:
  "req_method request \<noteq> ''POST'' \<Longrightarrow> check_compare_form site request form = None"
  by (simp add: check_compare_form_def)

lemma check_compare_form_not_Render:
  "check_compare_form site request form \<noteq> Some (Render tmpl data)"
  by (simp add: check_compare_form_def)

lemma browse_POST:
  "req_method request = ''POST'' \<Longrightarrow>
     \<exists>url. browse site api request viewer key type = Inr (HttpResponseRedirect url)"
  by (simp add: browse_def Let_def check_compare_form_def)

lemma compare_POST:
  "req_method request = ''POST'' \<Longrightarrow>
     \<exists>url. compare site api dapi request diff key type = Inr (HttpResponseRedirect url)"
  by (simp add: compare_def Let_def check_compare_form_def)

lemma browse_404:
  "req_method request \<noteq> ''POST'' \<Longrightarrow>
     (browse site api request viewer key type = Inl Http404) =
     (\<not> key_in (get_selected_file api (select api viewer key) key)
          (get_files api (select api viewer key)))"
  by (simp add: browse_def Let_def check_compare_form_not_POST)

lemma compare_404:
  "req_method request \<noteq> ''POST'' \<Longrightarrow>
     (compare site api dapi request diff key type = Inl Http404) =
     (\<not> key_in (get_selected_file api (diff_left dapi diff) key) (diff_get_files dapi diff) \<and>
      \<not> key_in (get_selected_file api (diff_left dapi diff) key)
           (diff_get_deleted_files dapi diff))"
  by (simp add: compare_def Let_def check_compare_form_not_POST split: prod.splits)

lemma serve_404:
  "(serve api request viewer key = Inl Http404) = (key \<notin> fst ` set (get_files api viewer))"
proof -
  have "(serve api request viewer key = Inl Http404) = (map_of (get_files api viewer) key = None)"
    by (simp add: serve_def Let_def split: option.splits)
  then show ?thesis by (simp add: map_of_eq_None_iff)
qed

lemma serve_found:
  "map_of (get_files api viewer) key = Some e \<Longrightarrow>
     serve api request viewer key = Inr (HttpResponseSendFile (full e) (mimetype e))"
  by (simp add: serve_def)

lemma setup_viewer_no_key:
  "k \<notin> {''file'', ''version'', ''addon'', ''status'', ''selected'', ''validate_url'',
         ''automated_signing'', ''validation_data'', ''file_link''} \<Longrightarrow>
     setup_viewer site request file_obj k = None"
  by (simp add: setup_viewer_def setup_viewer_initial_def Let_def)

text \<open>
  Claim C5, as amended. For every request that the compare form check does not redirect
  (every request that is not a POST), \<open>browse\<close> raises \<open>Http404\<close> exactly when the
  selected key is not in \<open>viewer.get_files()\<close>, and \<open>compare\<close> exactly when the
  selected key is in neither \<open>diff.get_files()\<close> nor \<open>diff.get_deleted_files()\<close>; a
  POST request to either is answered with a redirect before any key is looked up.
  \<open>serve\<close> raises \<open>Http404\<close> exactly when the key is absent from
  \<open>viewer.get_files()\<close>, and otherwise responds with the file at \<open>obj['full']\<close> with
  content type \<open>obj['mimetype']\<close>.
\<close>

theorem unknown_key_404:
  "(req_method request \<noteq> ''POST'' \<longrightarrow>
      (browse site api request viewer key type = Inl Http404) =
      (\<not> key_in (get_selected_file api (select api viewer key) key)
           (get_files api (select api viewer key)))) \<and>
   (req_method request = ''POST'' \<longrightarrow>
      (\<exists>url. browse site api request viewer key type = Inr (HttpResponseRedirect url))) \<and>
   (req_method request \<noteq> ''POST'' \<longrightarrow>
      (compare site api dapi request diff key type = Inl Http404) =
      (\<not> key_in (get_selected_file api (diff_left dapi diff) key) (diff_get_files dapi diff) \<and>
       \<not> key_in (get_selected_file api (diff_left dapi diff) key)
            (diff_get_deleted_files dapi diff))) \<and>
   (req_method request = ''POST'' \<longrightarrow>
      (\<exists>url. compare site api dapi request diff key type = Inr (HttpResponseRedirect url))) \<and>
   (serve api request viewer skey = Inl Http404) =
     (skey \<notin> fst ` set (get_files api viewer)) \<and>
   (\<forall>e. map_of (get_files api viewer) skey = Some e \<longrightarrow>
        serve api request viewer skey = Inr (HttpResponseSendFile (full e) (mimetype e)))"
  by (simp add: browse_404 browse_POST compare_404 compare_POST serve_404 serve_found)


theorem unknown_key_404_witness:
  "(browse sample_site sample_api get_request None (Some ''nope'') ''file''
      :: error + (string option, string option) response) = Inl Http404 \<and>
   (browse sample_site sample_api get_request None (Some ''icon.png'') ''file''
      :: error + (string option, string option) response) \<noteq> Inl Http404 \<and>
   (compare sample_site sample_api sample_dapi get_request None (Some ''nope'') ''file''
      :: error + (string option, string option) response) = Inl Http404 \<and>
   (serve sample_api get_request None ''nope''
      :: error + (string option, string option) response) = Inl Http404 \<and>
   (serve sample_api get_request None ''icon.png''
      :: error + (string option, string option) response)
     = Inr (HttpResponseSendFile ''/tmp/1/icon.png'' ''image/png'')"
  using
    unknown_key_404 [of get_request sample_site sample_api None "Some ''nope''" "''file''"
      sample_dapi None "''nope''"]
    unknown_key_404 [of get_request sample_site sample_api None "Some ''icon.png''" "''file''"
      sample_dapi None "''icon.png''"]
  by (simp add: browse_def compare_def serve_def check_compare_form_def Let_def
        get_request_def sample_api_def sample_dapi_def sample_files_def)

text \<open>
  Claim C5 as stated fails for a POST request: the selected key is not among the files,
  and \<open>browse\<close> answers with a redirect instead of raising \<open>Http404\<close>.
\<close>

theorem browse_post_unknown_key_counterexample:
  "(browse sample_site sample_api post_request None (Some ''nope'') ''file''
      :: error + (string option, string option) response)
     = Inr (HttpResponseRedirect ''/files/browse/1'') \<and>
   \<not> key_in (get_selected_file sample_api (select sample_api None (Some ''nope'')) (Some ''nope''))
         (get_files sample_api (select sample_api None (Some ''nope'')))"
  by (simp add: browse_def check_compare_form_def POST_or_None_def Let_def post_request_def
        sample_site_def sample_api_def sample_files_def)

text \<open>
  Claim C7. Whenever \<open>browse\<close> renders a template, its context holds \<open>content\<close>, the
  text \<open>viewer.read_file()\<close> returns, exactly when the selected file is neither a
  directory nor binary; whenever \<open>compare\<close> renders one, its context holds \<open>left\<close> and
  \<open>right\<close>, the pair \<open>diff.read_file()\<close> returns, exactly when \<open>diff.is_diffable()\<close>
  holds.
\<close>

theorem content_inclusion:
  "(browse site api request viewer key type = Inr (Render tmpl data) \<longrightarrow>
      data ''content'' =
        (if \<not> is_directory api (select api viewer key) \<and> \<not> is_binary api (select api viewer key)
         then Some (PStr (read_file api (select api viewer key))) else None)) \<and>
   (compare site api dapi request diff key type = Inr (Render tmpl' data') \<longrightarrow>
      data' ''left'' =
        (if diff_is_diffable dapi
              (diff_select dapi diff (get_selected_file api (diff_left dapi diff) key))
         then Some (PStr (fst (diff_read_file dapi
                (diff_select dapi diff (get_selected_file api (diff_left dapi diff) key)))))
         else None) \<and>
      data' ''right'' =
        (if diff_is_diffable dapi
              (diff_select dapi diff (get_selected_file api (diff_left dapi diff) key))
         then Some (PStr (snd (diff_read_file dapi
                (diff_select dapi diff (get_selected_file api (diff_left dapi diff) key)))))
         else None))"
proof (intro conjI impI)
  assume r: "browse site api request viewer key type = Inr (Render tmpl data)"
  show "data ''content'' =
        (if \<not> is_directory api (select api viewer key) \<and> \<not> is_binary api (select api viewer key)
         then Some (PStr (read_file api (select api viewer key))) else None)"
    using r
    by (auto simp: browse_def Let_def setup_viewer_no_key check_compare_form_not_Render split: option.splits if_splits)
next
  assume r: "compare site api dapi request diff key type = Inr (Render tmpl' data')"
  then show "data' ''left'' =
        (if diff_is_diffable dapi
              (diff_select dapi diff (get_selected_file api (diff_left dapi diff) key))
         then Some (PStr (fst (diff_read_file dapi
                (diff_select dapi diff (get_selected_file api (diff_left dapi diff) key)))))
         else None)"
    by (auto simp: compare_def Let_def setup_viewer_no_key check_compare_form_not_Render split: option.splits if_splits prod.splits)
next
  assume r: "compare site api dapi request diff key type = Inr (Render tmpl' data')"
  then show "data' ''right'' =
        (if diff_is_diffable dapi
              (diff_select dapi diff (get_selected_file api (diff_left dapi diff) key))
         then Some (PStr (snd (diff_read_file dapi
                (diff_select dapi diff (get_selected_file api (diff_left dapi diff) key)))))
         else None)"
    by (auto simp: compare_def Let_def setup_viewer_no_key check_compare_form_not_Render split: option.splits if_splits prod.splits)
qed

theorem content_inclusion_witness:
  "(\<exists>tmpl data.
      (browse sample_site sample_api get_request None (Some ''install.rdf'') ''file''
         :: error + (string option, string option) response) = Inr (Render tmpl data) \<and>
      data ''content'' = Some (PStr ''<RDF/>'')) \<and>
   (\<exists>tmpl data.
      (browse sample_site sample_api get_request None (Some ''icon.png'') ''file''
         :: error + (string option, string option) response) = Inr (Render tmpl data) \<and>
      data ''content'' = None) \<and>
   (\<exists>tmpl data.
      compare sample_site sample_api sample_dapi get_request None (Some ''install.rdf'') ''file''
        = Inr (Render tmpl data) \<and>
      data ''left'' = Some (PStr ''<RDF/>'') \<and> data ''right'' = Some (PStr ''<RDF></RDF>'')) \<and>
   (\<exists>tmpl data.
      compare sample_site sample_api sample_dapi get_request None (Some ''icon.png'') ''file''
        = Inr (Render tmpl data) \<and>
      data ''left'' = None \<and> data ''right'' = None)"
proof -
  obtain t1 d1 where b1:
    "(browse sample_site sample_api get_request None (Some ''install.rdf'') ''file''
        :: error + (string option, string option) response) = Inr (Render t1 d1)"
    by (simp add: browse_def check_compare_form_def Let_def get_request_def sample_api_def
          sample_files_def)
  obtain t2 d2 where b2:
    "(browse sample_site sample_api get_request None (Some ''icon.png'') ''file''
        :: error + (string option, string option) response) = Inr (Render t2 d2)"
    by (simp add: browse_def check_compare_form_def Let_def get_request_def sample_api_def
          sample_files_def)
  obtain t3 d3 where c1:
    "compare sample_site sample_api sample_dapi get_request None (Some ''install.rdf'') ''file''
       = Inr (Render t3 d3)"
    by (simp add: compare_def check_compare_form_def Let_def get_request_def sample_api_def
          sample_dapi_def sample_files_def)
  obtain t4 d4 where c2:
    "compare sample_site sample_api sample_dapi get_request None (Some ''icon.png'') ''file''
       = Inr (Render t4 d4)"
    by (simp add: compare_def check_compare_form_def Let_def get_request_def sample_api_def
          sample_dapi_def sample_files_def)
  have "d1 ''content'' = Some (PStr ''<RDF/>'')"
    using content_inclusion [THEN conjunct1, rule_format, OF b1] by (simp add: sample_api_def)
  moreover have "d2 ''content'' = None"
    using content_inclusion [THEN conjunct1, rule_format, OF b2] by (simp add: sample_api_def)
  moreover have "d3 ''left'' = Some (PStr ''<RDF/>'') \<and> d3 ''right'' = Some (PStr ''<RDF></RDF>'')"
    using content_inclusion [THEN conjunct2, rule_format, OF c1]
    by (simp add: sample_api_def sample_dapi_def)
  moreover have "d4 ''left'' = None \<and> d4 ''right'' = None"
    using content_inclusion [THEN conjunct2, rule_format, OF c2]
    by (simp add: sample_api_def sample_dapi_def)
  ultimately show ?thesis using b1 b2 c1 c2 by blast
qed

text \<open>
  Claim C8, as amended. \<open>browse\<close> and \<open>compare\<close>, whenever they render, render
  \<open>files/content.html\<close> when the type argument is \<open>fragment\<close> and \<open>files/viewer.html\<close>
  for every other value, and they do render for every request that is not a POST and
  selects a known key; \<open>poll\<close> and \<open>compare_poll\<close> return JSON through \<open>json_view\<close>.
  Not every view renders a template or returns JSON: \<open>redirect\<close> answers with an HTTP
  redirect, \<open>serve\<close> never renders, and \<open>browse\<close> and \<open>compare\<close> redirect a POST or
  raise \<open>Http404\<close>.
\<close>

theorem template_or_json:
  "(browse site api request viewer key type = Inr (Render tmpl data) \<longrightarrow>
      tmpl = (if type = ''fragment'' then ''files/content.html'' else ''files/viewer.html'')) \<and>
   (req_method request \<noteq> ''POST'' \<and>
    key_in (get_selected_file api (select api viewer key) key)
      (get_files api (select api viewer key)) \<longrightarrow>
      (\<exists>d. browse site api request viewer key type =
         Inr (Render (if type = ''fragment'' then ''files/content.html''
                      else ''files/viewer.html'') d))) \<and>
   (compare site api dapi request diff key type = Inr (Render tmpl' data') \<longrightarrow>
      tmpl' = (if type = ''fragment'' then ''files/content.html'' else ''files/viewer.html'')) \<and>
   (req_method request \<noteq> ''POST'' \<and>
    (key_in (get_selected_file api (diff_left dapi diff) key) (diff_get_files dapi diff) \<or>
     key_in (get_selected_file api (diff_left dapi diff) key) (diff_get_deleted_files dapi diff))
      \<longrightarrow>
      (\<exists>d. compare site api dapi request diff key type =
         Inr (Render (if type = ''fragment'' then ''files/content.html''
                      else ''files/viewer.html'') d))) \<and>
   json_view \<in> set (decorators Poll) \<and>
   json_view \<in> set (decorators Compare_poll) \<and>
   (\<exists>url. fst (redirect site api c tok request viewer skey) = HttpResponseRedirect url) \<and>
   (\<forall>t d. serve api request viewer skey \<noteq> Inr (Render t d))"
proof -
  have b1: "browse site api request viewer key type = Inr (Render tmpl data) \<longrightarrow>
      tmpl = (if type = ''fragment'' then ''files/content.html'' else ''files/viewer.html'')"
    by (auto simp: browse_def Let_def check_compare_form_not_Render
          split: option.splits if_splits)
  have b2: "req_method request \<noteq> ''POST'' \<and>
    key_in (get_selected_file api (select api viewer key) key)
      (get_files api (select api viewer key)) \<longrightarrow>
      (\<exists>d. browse site api request viewer key type =
         Inr (Render (if type = ''fragment'' then ''files/content.html''
                      else ''files/viewer.html'') d))"
    by (simp add: browse_def Let_def check_compare_form_not_POST)
  have c1: "compare site api dapi request diff key type = Inr (Render tmpl' data') \<longrightarrow>
      tmpl' = (if type = ''fragment'' then ''files/content.html'' else ''files/viewer.html'')"
    by (auto simp: compare_def Let_def check_compare_form_not_Render
          split: option.splits if_splits prod.splits)
  have c2: "req_method request \<noteq> ''POST'' \<and>
    (key_in (get_selected_file api (diff_left dapi diff) key) (diff_get_files dapi diff) \<or>
     key_in (get_selected_file api (diff_left dapi diff) key) (diff_get_deleted_files dapi diff))
      \<longrightarrow>
      (\<exists>d. compare site api dapi request diff key type =
         Inr (Render (if type = ''fragment'' then ''files/content.html''
                      else ''files/viewer.html'') d))"
    by (auto simp: compare_def Let_def check_compare_form_not_POST split: prod.splits)
  have r: "\<exists>url. fst (redirect site api c tok request viewer skey) = HttpResponseRedirect url"
    by (simp add: redirect_def Let_def)
  have s: "\<forall>t d. serve api request viewer skey \<noteq> Inr (Render t d)"
    by (simp add: serve_def Let_def split: option.splits)
  from b1 b2 c1 c2 r s show ?thesis by simp
qed

theorem template_or_json_witness:
  "(\<exists>d. (browse sample_site sample_api get_request None (Some ''install.rdf'') ''fragment''
           :: error + (string option, string option) response)
          = Inr (Render ''files/content.html'' d)) \<and>
   (\<exists>d. (browse sample_site sample_api get_request None (Some ''install.rdf'') ''file''
           :: error + (string option, string option) response)
          = Inr (Render ''files/viewer.html'' d)) \<and>
   (\<exists>d. compare sample_site sample_api sample_dapi get_request None (Some ''install.rdf'')
           ''fragment'' = Inr (Render ''files/content.html'' d)) \<and>
   (\<exists>d. compare sample_site sample_api sample_dapi get_request None (Some ''install.rdf'')
           ''file'' = Inr (Render ''files/viewer.html'' d))"
proof -
  have m: "req_method get_request \<noteq> ''POST''"
    by (simp add: get_request_def)
  have k: "key_in (get_selected_file sample_api (select sample_api None (Some ''install.rdf''))
                     (Some ''install.rdf''))
             (get_files sample_api (select sample_api None (Some ''install.rdf'')))"
    by (simp add: sample_api_def sample_files_def)
  have kd: "key_in (get_selected_file sample_api (diff_left sample_dapi None)
                      (Some ''install.rdf''))
              (diff_get_files sample_dapi None)"
    by (simp add: sample_api_def sample_dapi_def sample_files_def)
  have b: "\<exists>d. (browse sample_site sample_api get_request None (Some ''install.rdf'') ty
                  :: error + (string option, string option) response)
             = Inr (Render (if ty = ''fragment'' then ''files/content.html''
                            else ''files/viewer.html'') d)" for ty
    using template_or_json [THEN conjunct2, THEN conjunct1, rule_format, OF conjI, OF m k] .
  have c: "\<exists>d. compare sample_site sample_api sample_dapi get_request None
               (Some ''install.rdf'') ty
             = Inr (Render (if ty = ''fragment'' then ''files/content.html''
                            else ''files/viewer.html'') d)" for ty
    using template_or_json [THEN conjunct2, THEN conjunct2, THEN conjunct2, THEN conjunct1,
      rule_format, OF conjI, OF m disjI1, OF kd] .
  from b [of "''fragment''"] b [of "''file''"] c [of "''fragment''"] c [of "''file''"]
  show ?thesis by simp
qed

text \<open>
  Claim C8 as stated fails for a POST request to \<open>browse\<close> with type \<open>fragment\<close>: the
  answer is a redirect to the path of the request, neither a template nor JSON.
\<close>

theorem browse_post_fragment_counterexample:
  "(browse sample_site sample_api post_request None (Some ''install.rdf'') ''fragment''
      :: error + (string option, string option) response)
     = Inr (HttpResponseRedirect ''/files/browse/1'')"
  by (simp add: browse_def check_compare_form_def POST_or_None_def Let_def post_request_def
        sample_site_def)

subsection \<open>Token-gated file serving\<close>

text \<open>
  Claim C3. For every request, \<open>redirect\<close> makes a token whose data is the pair
  (\<open>viewer.file.id\<close>, key), saves it, and redirects to the \<open>files.serve\<close> URL with the
  token as the query parameter \<open>token\<close>; nothing else in the cache changes. \<open>serve\<close>
  is decorated with \<open>file_view_token\<close> and not with \<open>file_view\<close>: as decorated it
  answers only a request that carries a token valid for this file and key, refuses
  every other request, and it does answer a request carrying the token \<open>redirect\<close>
  has just saved.
\<close>

theorem redirect_and_serve_token:
  "fst (redirect site api c tok request viewer key) =
     HttpResponseRedirect
       (urlparams site (reverse site ''files.serve'' [AViewer viewer, AStr key])
          [(''token'', tok)]) \<and>
   tokens (snd (redirect site api c tok request viewer key)) tok =
     Some (file_id (viewer_file api viewer), key) \<and>
   (\<forall>t. t \<noteq> tok \<longrightarrow>
      tokens (snd (redirect site api c tok request viewer key)) t = tokens c t) \<and>
   messages (snd (redirect site api c tok request viewer key)) = messages c \<and>
   decorators Serve = [file_view_token, non_atomic_requests] \<and>
   (\<forall>resp. serve_view api c' request' viewer key = Inr resp \<longrightarrow>
      (\<exists>t. map_of (req_GET request') ''token'' = Some t \<and>
           Token_valid c' t (file_id (viewer_file api viewer), key))) \<and>
   (\<not> (\<exists>t. map_of (req_GET request') ''token'' = Some t \<and>
            Token_valid c' t (file_id (viewer_file api viewer), key)) \<longrightarrow>
      serve_view api c' request' viewer key = Inl PermissionDenied) \<and>
   (map_of (req_GET request') ''token'' = Some tok \<longrightarrow>
      serve_view api (snd (redirect site api c tok request viewer key)) request' viewer key =
        serve api request' viewer key)"
proof -
  have r: "redirect site api c tok request viewer key =
     (HttpResponseRedirect
        (urlparams site (reverse site ''files.serve'' [AViewer viewer, AStr key])
           [(''token'', tok)]),
      c\<lparr>tokens := (tokens c)(tok \<mapsto> (file_id (viewer_file api viewer), key))\<rparr>)"
    by (simp add: redirect_def Token_save_def Let_def)
  have g1: "\<forall>resp. serve_view api c' request' viewer key = Inr resp \<longrightarrow>
      (\<exists>t. map_of (req_GET request') ''token'' = Some t \<and>
           Token_valid c' t (file_id (viewer_file api viewer), key))"
    by (auto simp: serve_view_def file_view_token_wrapper_def split: option.splits if_splits)
  have g2: "\<not> (\<exists>t. map_of (req_GET request') ''token'' = Some t \<and>
            Token_valid c' t (file_id (viewer_file api viewer), key)) \<longrightarrow>
      serve_view api c' request' viewer key = Inl PermissionDenied"
    by (auto simp: serve_view_def file_view_token_wrapper_def split: option.splits if_splits)
  have g3: "map_of (req_GET request') ''token'' = Some tok \<longrightarrow>
      serve_view api (snd (redirect site api c tok request viewer key)) request' viewer key =
        serve api request' viewer key"
    by (simp add: r serve_view_def file_view_token_wrapper_def Token_valid_def)
  from g1 g2 g3 show ?thesis by (simp add: r)
qed

theorem redirect_and_serve_token_witness:
  "(serve_view sample_api
      (snd (redirect sample_site sample_api empty_cache ''t0'' get_request None ''icon.png''))
      (get_request\<lparr>req_GET := [(''token'', ''t0'')]\<rparr>) None ''icon.png''
      :: error + (string option, string option) response)
     = Inr (HttpResponseSendFile ''/tmp/1/icon.png'' ''image/png'') \<and>
   (serve_view sample_api
      (snd (redirect sample_site sample_api empty_cache ''t0'' get_request None ''icon.png''))
      get_request None ''icon.png''
      :: error + (string option, string option) response)
     = Inl PermissionDenied \<and>
   fst (redirect sample_site sample_api empty_cache ''t0'' get_request None ''icon.png'')
     = HttpResponseRedirect ''/files.serve?token=t0''"
  using
    redirect_and_serve_token [of sample_site sample_api empty_cache "''t0''" get_request None
      "''icon.png''"
      "snd (redirect sample_site sample_api empty_cache ''t0'' get_request None ''icon.png'')"
      "get_request\<lparr>req_GET := [(''token'', ''t0'')]\<rparr>"]
    redirect_and_serve_token [of sample_site sample_api empty_cache "''t0''" get_request None
      "''icon.png''"
      "snd (redirect sample_site sample_api empty_cache ''t0'' get_request None ''icon.png'')"
      get_request]
  by (simp add: serve_view_def file_view_token_wrapper_def Token_valid_def redirect_def Token_save_def
        serve_def Let_def get_request_def sample_site_def sample_api_def sample_files_def
        sample_file_def empty_cache_def)

subsection \<open>Conditional requests\<close>

text \<open>
  Claim C2, as amended. \<open>browse\<close> and \<open>compare\<close> do not compose the conditional
  request decorator, which is commented out above both: \<open>browse\<close> is wrapped by
  \<open>csrf_exempt\<close>, \<open>file_view\<close> and \<open>non_atomic_requests\<close>, \<open>compare\<close> by
  \<open>csrf_exempt\<close>, \<open>compare_file_view\<close> and \<open>non_atomic_requests\<close>, and no view of the
  module evaluates \<open>etag\<close> or \<open>last_modified\<close> before it produces its response.
\<close>

theorem no_conditional_decorator:
  "decorators Browse = [csrf_exempt, file_view, non_atomic_requests] \<and>
   decorators Compare = [csrf_exempt, compare_file_view, non_atomic_requests] \<and>
   conditions_evaluated v = []"
  by (cases v) (simp_all add: conditions_evaluated_def)

text \<open>
  Claim C2 as stated fails: neither the ETag condition nor the Last-Modified condition
  is among what \<open>browse\<close> and \<open>compare\<close> evaluate, and \<open>condition\<close> is not among
  their decorators.
\<close>

theorem browse_compare_condition_counterexample:
  "etag \<notin> set (conditions_evaluated Browse) \<and>
   last_modified \<notin> set (conditions_evaluated Browse) \<and>
   etag \<notin> set (conditions_evaluated Compare) \<and>
   last_modified \<notin> set (conditions_evaluated Compare) \<and>
   condition etag last_modified \<notin> set (decorators Browse) \<and>
   condition etag last_modified \<notin> set (decorators Compare)"
  by (simp add: conditions_evaluated_def)

subsection \<open>\<open>BrowseViewSet\<close>\<close>

text \<open>
  Claim C1 does not hold of the code. The class body assigns \<open>permission_classes\<close> twice
  and the second value, the empty list, is the one the class keeps; with no permission
  class to consult, \<open>retrieve\<close> serves \<open>File.objects.all()\<close> to every request, also to
  one that none of \<open>AllowReviewer\<close>, \<open>AllowReviewerUnlisted\<close> and \<open>AllowAddonAuthor\<close>
  lets through.
\<close>

theorem BrowseViewSet_serves_everyone:
  "class_permission_classes inherited BrowseViewSet_body = [] \<and>
   BrowseViewSet_retrieve (\<lambda>p r. False) inherited all_files request = Inr all_files \<and>
   BrowseViewSet_retrieve grants inherited all_files request = Inr all_files"
  by (simp add: BrowseViewSet_retrieve_def BrowseViewSet_body_def check_permissions_def)

end
